theory Spec2Isabelle
  imports
    Complex_Main
    "HOL-Library.Product_Lexorder"
    "HOL-Library.List_Lexorder"
    "HOL-Library.Char_ord"
    "HOL-Library.Multiset"
begin

section \<open>The TPC-H sales dashboard (TPC\_daesang.py)\<close>

text \<open>
  The program is a Streamlit page over the TPC-H sample schema of a warehouse. Its one
  function of substance, \<^verbatim>\<open>load_filtered_data\<close>, composes eight read queries over a
  filtered join and is wrapped by \<^verbatim>\<open>@st.cache_data\<close>; the page calls it behind one guard.

  What the warehouse and the framework do is written out here as list functions:
  \<^item> a table is the list of its rows, in the order the engine scans it;
  \<^item> \<^verbatim>\<open>filter\<close> keeps the rows that satisfy the predicate, \<^verbatim>\<open>join\<close> is the inner join
    (every pair of rows that satisfies the condition);
  \<^item> \<^verbatim>\<open>group_by\<close> makes one group per distinct key, \<^verbatim>\<open>order_by\<close> sorts by the key,
    \<^verbatim>\<open>limit\<close> keeps a prefix;
  \<^item> \<^verbatim>\<open>SUM\<close> and \<^verbatim>\<open>AVG\<close> over no row are NULL, \<^verbatim>\<open>COUNT\<close> over no row is 0.
  SQL leaves the order of an unordered result, and of the ties of an ordered one, to
  the engine; the engine modelled here is a deterministic one (groups in the order of
  \<open>remdups\<close>, a stable sort). A revenue cell of a result stands for the decimal the
  warehouse computed. \<^verbatim>\<open>to_pandas()\<close> hands such a cell to the program as a float64, and
  neither that conversion nor the rounding of \<^verbatim>\<open>AVG\<close> to the warehouse's result scale is
  modelled. The theorems on returned revenue cells therefore state only what the
  conversion keeps: whether a cell is NULL, the order of two cells (rounding is
  monotone), and that cells computed from the same decimal are equal. None of them states
  an arithmetic equality between converted cells.
\<close>

subsection \<open>The schema\<close>

text \<open>
  Only the columns the program reads are kept. Every column of the TPC-H schema is
  declared NOT NULL, so a cell is a plain value. A date is (year, month, day), ordered
  lexicographically, which is the chronological order and the order of the ISO strings
  \<^verbatim>\<open>str(date_range[0])\<close> the program passes. \<^verbatim>\<open>O_TOTALPRICE\<close> is NUMBER(12,2), counted in
  hundredths.
\<close>

type_synonym date = "nat \<times> nat \<times> nat"
type_synonym money = int

record orders_row =
  O_ORDERKEY :: int
  O_CUSTKEY :: int
  O_TOTALPRICE :: money
  O_ORDERDATE :: date
  O_ORDERPRIORITY :: string

record customer_row =
  C_CUSTKEY :: int
  C_NATIONKEY :: int
  C_MKTSEGMENT :: string

record nation_row =
  N_NATIONKEY :: int
  N_NAME :: string
  N_REGIONKEY :: int

record region_row =
  R_REGIONKEY :: int
  R_NAME :: string

text \<open>The tables of \<^verbatim>\<open>SNOWFLAKE_SAMPLE_DATA.TPCH_SF1\<close> that the pipeline reads
  (\<^verbatim>\<open>lineitem_df\<close> is bound at line 45 and never used).\<close>

record database =
  ORDERS :: "orders_row list"
  CUSTOMER :: "customer_row list"
  NATION :: "nation_row list"
  REGION :: "region_row list"

subsection \<open>Relational operators\<close>

definition join :: "'a list \<Rightarrow> 'b list \<Rightarrow> ('a \<Rightarrow> 'b \<Rightarrow> bool) \<Rightarrow> ('a \<times> 'b) list" where
  "join xs ys on = concat (map (\<lambda>x. map (Pair x) (filter (on x) ys)) xs)"

definition group_by :: "('r \<Rightarrow> 'k) \<Rightarrow> 'r list \<Rightarrow> ('k \<times> 'r list) list" where
  "group_by key rows =
     map (\<lambda>k. (k, filter (\<lambda>r. key r = k) rows)) (remdups (map key rows))"

definition order_by :: "('r \<Rightarrow> 'k::linorder) \<Rightarrow> 'r list \<Rightarrow> 'r list" where
  "order_by key rows = sort_key key rows"

definition limit :: "nat \<Rightarrow> 'r list \<Rightarrow> 'r list" where
  "limit n rows = take n rows"

definition with_column :: "('r \<Rightarrow> 'c) \<Rightarrow> 'r list \<Rightarrow> ('r \<times> 'c) list" where
  "with_column f rows = map (\<lambda>r. (r, f r)) rows"

definition date_trunc_MONTH :: "date \<Rightarrow> date" where
  "date_trunc_MONTH d = (case d of (y, m, _) \<Rightarrow> (y, m, 1))"

text \<open>Aggregates. \<open>sql_sum\<close> and \<open>sql_avg\<close> are the scalar aggregates, NULL over no row;
  inside a group (never empty, lemma \<open>group_by_nonempty\<close>) they are \<open>sum_list\<close> and
  \<open>avg_of\<close>.\<close>

definition avg_of :: "money list \<Rightarrow> rat" where
  "avg_of xs = of_int (sum_list xs) / of_nat (length xs)"

definition sql_sum :: "money list \<Rightarrow> money option" where
  "sql_sum xs = (if xs = [] then None else Some (sum_list xs))"

definition sql_avg :: "money list \<Rightarrow> rat option" where
  "sql_avg xs = (if xs = [] then None else Some (avg_of xs))"

text \<open>An aggregate without \<^verbatim>\<open>group_by\<close> returns a table of exactly one row.\<close>

definition agg :: "('r list \<Rightarrow> 'v) \<Rightarrow> 'r list \<Rightarrow> 'v list" where
  "agg f rows = [f rows]"

datatype error = KeyError | TypeError

text \<open>\<^verbatim>\<open>.to_pandas()["TOTAL"][0]\<close>: the first cell of the column; pandas raises KeyError when
  the frame has no row.\<close>

fun cell0 :: "'v list \<Rightarrow> error + 'v" where
  "cell0 [] = Inl KeyError"
| "cell0 (v # _) = Inr v"

subsection \<open>The base relation (lines 47-54)\<close>

type_synonym base_row = "((orders_row \<times> customer_row) \<times> nation_row) \<times> region_row"

fun the_order :: "base_row \<Rightarrow> orders_row" where
  "the_order (((ord, c), n), r) = ord"

fun the_customer :: "base_row \<Rightarrow> customer_row" where
  "the_customer (((ord, c), n), r) = c"

fun the_nation :: "base_row \<Rightarrow> nation_row" where
  "the_nation (((ord, c), n), r) = n"

fun the_region :: "base_row \<Rightarrow> region_row" where
  "the_region (((ord, c), n), r) = r"

definition price :: "base_row \<Rightarrow> money" where
  "price row = O_TOTALPRICE (the_order row)"

definition base_df :: "database \<Rightarrow> string list \<Rightarrow> date \<Rightarrow> date \<Rightarrow> base_row list" where
  "base_df d selected_regions start_date end_date =
     filter (\<lambda>row. R_NAME (the_region row) \<in> set selected_regions)
       (join
         (join
           (join
             (filter (\<lambda>ord. start_date \<le> O_ORDERDATE ord \<and> O_ORDERDATE ord \<le> end_date)
                (ORDERS d))
             (CUSTOMER d) (\<lambda>ord c. O_CUSTKEY ord = C_CUSTKEY c))
           (NATION d) (\<lambda>oc n. C_NATIONKEY (snd oc) = N_NATIONKEY n))
         (REGION d) (\<lambda>ocn r. N_REGIONKEY (snd ocn) = R_REGIONKEY r))"

subsection \<open>The eight aggregates (lines 56-108)\<close>

record monthly_revenue_row =
  mr_YEAR_MONTH :: date
  mr_REVENUE :: money

record region_revenue_row =
  rr_R_NAME :: string
  rr_REVENUE :: money
  rr_ORDERS :: nat

record segment_analysis_row =
  sa_C_MKTSEGMENT :: string
  sa_REVENUE :: money
  sa_ORDERS :: nat
  sa_AVG_ORDER :: rat

record priority_analysis_row =
  pa_O_ORDERPRIORITY :: string
  pa_ORDERS :: nat
  pa_REVENUE :: money

record nation_revenue_row =
  nr_N_NAME :: string
  nr_R_NAME :: string
  nr_REVENUE :: money

definition monthly_revenue_df :: "base_row list \<Rightarrow> monthly_revenue_row list" where
  "monthly_revenue_df base =
     order_by mr_YEAR_MONTH
       (map (\<lambda>(k, g). \<lparr>mr_YEAR_MONTH = k, mr_REVENUE = sum_list (map (price \<circ> fst) g)\<rparr>)
          (group_by snd
             (with_column (\<lambda>row. date_trunc_MONTH (O_ORDERDATE (the_order row))) base)))"

text \<open>\<^verbatim>\<open>F.count("O_ORDERKEY")\<close> counts the rows of the group whose key is not NULL, which
  is every row: the length of the group.\<close>

definition region_revenue_df :: "base_row list \<Rightarrow> region_revenue_row list" where
  "region_revenue_df base =
     map (\<lambda>(k, g). \<lparr>rr_R_NAME = k, rr_REVENUE = sum_list (map price g), rr_ORDERS = length g\<rparr>)
       (group_by (\<lambda>row. R_NAME (the_region row)) base)"

definition segment_analysis_df :: "base_row list \<Rightarrow> segment_analysis_row list" where
  "segment_analysis_df base =
     map (\<lambda>(k, g). \<lparr>sa_C_MKTSEGMENT = k, sa_REVENUE = sum_list (map price g),
                     sa_ORDERS = length g, sa_AVG_ORDER = avg_of (map price g)\<rparr>)
       (group_by (\<lambda>row. C_MKTSEGMENT (the_customer row)) base)"

definition priority_analysis_df :: "base_row list \<Rightarrow> priority_analysis_row list" where
  "priority_analysis_df base =
     order_by pa_O_ORDERPRIORITY
       (map (\<lambda>(k, g). \<lparr>pa_O_ORDERPRIORITY = k, pa_ORDERS = length g,
                       pa_REVENUE = sum_list (map price g)\<rparr>)
          (group_by (\<lambda>row. O_ORDERPRIORITY (the_order row)) base))"

text \<open>\<^verbatim>\<open>order_by(F.col("REVENUE").desc())\<close>: ascending by the negated revenue.\<close>

definition nation_revenue_df :: "base_row list \<Rightarrow> nation_revenue_row list" where
  "nation_revenue_df base =
     limit 10
       (order_by (\<lambda>row. - nr_REVENUE row)
          (map (\<lambda>(k, g). \<lparr>nr_N_NAME = fst k, nr_R_NAME = snd k,
                          nr_REVENUE = sum_list (map price g)\<rparr>)
             (group_by (\<lambda>row. (N_NAME (the_nation row), R_NAME (the_region row))) base)))"

text \<open>The returned dictionary (lines 110-119). The three scalars are Python values that
  may be \<^verbatim>\<open>None\<close>; \<^verbatim>\<open>base_df.count()\<close> is an integer.\<close>

record result_bundle =
  total_revenue :: "money option"
  total_orders :: "nat option"
  avg_order_value :: "rat option"
  monthly_revenue :: "monthly_revenue_row list"
  region_revenue :: "region_revenue_row list"
  segment_analysis :: "segment_analysis_row list"
  priority_analysis :: "priority_analysis_row list"
  nation_revenue :: "nation_revenue_row list"

text \<open>The queries the function sends, named by the key of the bundle they fill.\<close>

datatype query =
  Q_total_revenue | Q_total_orders | Q_avg_order_value | Q_monthly_revenue
  | Q_region_revenue | Q_segment_analysis | Q_priority_analysis | Q_nation_revenue

definition all_queries :: "query list" where
  "all_queries = [Q_total_revenue, Q_total_orders, Q_avg_order_value, Q_monthly_revenue,
     Q_region_revenue, Q_segment_analysis, Q_priority_analysis, Q_nation_revenue]"

text \<open>The body of \<^verbatim>\<open>load_filtered_data\<close>: the queries it sent, and the bundle or the
  exception of the first failing statement.\<close>

definition load_filtered_data_body ::
  "database \<Rightarrow> string list \<Rightarrow> date \<Rightarrow> date \<Rightarrow> query list \<times> (error + result_bundle)" where
  "load_filtered_data_body d selected_regions start_date end_date =
     (let base = base_df d selected_regions start_date end_date in
      case cell0 (agg (\<lambda>rows. sql_sum (map price rows)) base) of
        Inl err \<Rightarrow> ([Q_total_revenue], Inl err)
      | Inr tr \<Rightarrow>
          (let n = length base in
           case cell0 (agg (\<lambda>rows. sql_avg (map price rows)) base) of
             Inl err \<Rightarrow> ([Q_total_revenue, Q_total_orders, Q_avg_order_value], Inl err)
           | Inr av \<Rightarrow>
               (all_queries,
                Inr \<lparr>total_revenue = tr,
                     total_orders = Some n,
                     avg_order_value = av,
                     monthly_revenue = monthly_revenue_df base,
                     region_revenue = region_revenue_df base,
                     segment_analysis = segment_analysis_df base,
                     priority_analysis = priority_analysis_df base,
                     nation_revenue = nation_revenue_df base\<rparr>)))"

subsection \<open>The cache (line 39) and the page (lines 121-207)\<close>

text \<open>
  \<^verbatim>\<open>@st.cache_data\<close> keys an entry by the function and the hash of its arguments, and
  leaves out of the hash every parameter whose name starts with an underscore. The first
  parameter is named \<^verbatim>\<open>_selected_regions\<close> (written \<open>selected_regions\<close> below, where a
  name cannot start with an underscore), so the key is made of the two dates only.
  A call whose key is stored returns the stored bundle and sends no query; a call that
  raises stores nothing. The call site passes \<^verbatim>\<open>tuple(selected_regions)\<close>, a hashable value.
\<close>

definition cache_key :: "string list \<Rightarrow> date \<Rightarrow> date \<Rightarrow> date \<times> date" where
  "cache_key selected_regions start_date end_date = (start_date, end_date)"

record world =
  db :: database
  cache :: "date \<times> date \<rightharpoonup> result_bundle"
  issued :: "query list"

definition load_filtered_data ::
  "world \<Rightarrow> string list \<Rightarrow> date \<Rightarrow> date \<Rightarrow> (error + result_bundle) \<times> world" where
  "load_filtered_data w selected_regions start_date end_date =
     (case cache w (cache_key selected_regions start_date end_date) of
        Some b \<Rightarrow> (Inr b, w)
      | None \<Rightarrow>
          (case load_filtered_data_body (db w) selected_regions start_date end_date of
             (qs, Inl err) \<Rightarrow> (Inl err, w\<lparr>issued := issued w @ qs\<rparr>)
           | (qs, Inr b) \<Rightarrow>
               (Inr b,
                w\<lparr>cache := (cache w)(cache_key selected_regions start_date end_date \<mapsto> b),
                  issued := issued w @ qs\<rparr>)))"

text \<open>The metric tiles (lines 128, 130, 132) format the three scalars with a numeric
  format (\<^verbatim>\<open>f"${data['total_revenue']:,.0f}"\<close> and its like): a number formats, \<^verbatim>\<open>None\<close>
  raises TypeError.\<close>

definition format_metric :: "'v option \<Rightarrow> error + 'v" where
  "format_metric v = (case v of None \<Rightarrow> Inl TypeError | Some x \<Rightarrow> Inr x)"

text \<open>One run of the script below the widgets: \<open>Dashboard\<close> stands for the tiles and
  charts drawn from the bundle (the charts take the tables as they are), \<open>Prompt\<close> for
  \<^verbatim>\<open>st.warning\<close> with its message, \<open>Failed\<close> for an exception that ends the run.\<close>

datatype page = Dashboard result_bundle | Prompt | Failed error

definition script :: "world \<Rightarrow> string list \<Rightarrow> date list \<Rightarrow> page \<times> world" where
  "script w selected_regions date_range =
     (if length date_range = 2 \<and> selected_regions \<noteq> [] then
        (case load_filtered_data w selected_regions (date_range ! 0) (date_range ! 1) of
           (Inl err, w') \<Rightarrow> (Failed err, w')
         | (Inr data, w') \<Rightarrow>
             (case format_metric (total_revenue data) of
                Inl err \<Rightarrow> (Failed err, w')
              | Inr _ \<Rightarrow>
                  (case format_metric (total_orders data) of
                     Inl err \<Rightarrow> (Failed err, w')
                   | Inr _ \<Rightarrow>
                       (case format_metric (avg_order_value data) of
                          Inl err \<Rightarrow> (Failed err, w')
                        | Inr _ \<Rightarrow> (Dashboard data, w')))))
      else (Prompt, w))"

text \<open>A session: the script runs again on every change of a widget, with the widgets'
  values; the cache lives on between the runs.\<close>

definition fresh :: "database \<Rightarrow> world" where
  "fresh d = \<lparr>db = d, cache = Map.empty, issued = []\<rparr>"

fun reruns :: "world \<Rightarrow> (string list \<times> date list) list \<Rightarrow> world" where
  "reruns w [] = w"
| "reruns w (widgets # rest) = reruns (snd (script w (fst widgets) (snd widgets))) rest"

definition valid_selection :: "string list \<Rightarrow> date \<Rightarrow> date \<Rightarrow> bool" where
  "valid_selection selected_regions start_date end_date \<longleftrightarrow>
     selected_regions \<noteq> [] \<and> start_date \<le> end_date"

text \<open>The invariant of a session: every stored bundle was computed by the body, on this
  database and for the dates of its key, for some non-empty selection of regions.\<close>

definition cache_sound :: "world \<Rightarrow> bool" where
  "cache_sound w \<longleftrightarrow>
     (\<forall>s e b. cache w (s, e) = Some b \<longrightarrow>
        (\<exists>rs. rs \<noteq> [] \<and> snd (load_filtered_data_body (db w) rs s e) = Inr b))"

subsection \<open>A small warehouse\<close>

definition sample_db :: database where
  "sample_db =
     \<lparr>ORDERS =
        [\<lparr>O_ORDERKEY = 1, O_CUSTKEY = 100, O_TOTALPRICE = 15000,
          O_ORDERDATE = (1995, 1, 15), O_ORDERPRIORITY = ''1-URGENT''\<rparr>,
         \<lparr>O_ORDERKEY = 2, O_CUSTKEY = 200, O_TOTALPRICE = 25000,
          O_ORDERDATE = (1995, 2, 3), O_ORDERPRIORITY = ''5-LOW''\<rparr>,
         \<lparr>O_ORDERKEY = 3, O_CUSTKEY = 201, O_TOTALPRICE = 25000,
          O_ORDERDATE = (1995, 2, 20), O_ORDERPRIORITY = ''2-HIGH''\<rparr>,
         \<lparr>O_ORDERKEY = 4, O_CUSTKEY = 100, O_TOTALPRICE = 5000,
          O_ORDERDATE = (1996, 3, 1), O_ORDERPRIORITY = ''1-URGENT''\<rparr>],
      CUSTOMER =
        [\<lparr>C_CUSTKEY = 100, C_NATIONKEY = 10, C_MKTSEGMENT = ''BUILDING''\<rparr>,
         \<lparr>C_CUSTKEY = 200, C_NATIONKEY = 20, C_MKTSEGMENT = ''MACHINERY''\<rparr>,
         \<lparr>C_CUSTKEY = 201, C_NATIONKEY = 21, C_MKTSEGMENT = ''BUILDING''\<rparr>],
      NATION =
        [\<lparr>N_NATIONKEY = 10, N_NAME = ''JAPAN'', N_REGIONKEY = 1\<rparr>,
         \<lparr>N_NATIONKEY = 20, N_NAME = ''FRANCE'', N_REGIONKEY = 2\<rparr>,
         \<lparr>N_NATIONKEY = 21, N_NAME = ''GERMANY'', N_REGIONKEY = 2\<rparr>],
      REGION =
        [\<lparr>R_REGIONKEY = 1, R_NAME = ''ASIA''\<rparr>,
         \<lparr>R_REGIONKEY = 2, R_NAME = ''EUROPE''\<rparr>]\<rparr>"

section \<open>Properties\<close>

subsection \<open>The body always returns, and what it returns\<close>

lemma body_eq:
  "load_filtered_data_body d rs s e =
     (all_queries,
      Inr \<lparr>total_revenue = sql_sum (map price (base_df d rs s e)),
           total_orders = Some (length (base_df d rs s e)),
           avg_order_value = sql_avg (map price (base_df d rs s e)),
           monthly_revenue = monthly_revenue_df (base_df d rs s e),
           region_revenue = region_revenue_df (base_df d rs s e),
           segment_analysis = segment_analysis_df (base_df d rs s e),
           priority_analysis = priority_analysis_df (base_df d rs s e),
           nation_revenue = nation_revenue_df (base_df d rs s e)\<rparr>)"
  by (simp add: load_filtered_data_body_def agg_def Let_def)

lemma group_by_nonempty: "(k, g) \<in> set (group_by key rows) \<Longrightarrow> g \<noteq> []"
  by (auto simp: group_by_def filter_empty_conv)

lemma group_aggregates_not_null:
  assumes "(k, g) \<in> set (group_by key rows)"
  shows "sql_sum (map p g) = Some (sum_list (map p g))"
    and "sql_avg (map p g) = Some (avg_of (map p g))"
  using group_by_nonempty [OF assms] by (simp_all add: sql_sum_def sql_avg_def)

lemma sum_over_keys:
  fixes p :: "'r \<Rightarrow> 'a::comm_monoid_add"
  assumes "finite K" "key ` set rows \<subseteq> K"
  shows "(\<Sum>k\<in>K. sum_list (map p (filter (\<lambda>r. key r = k) rows))) = sum_list (map p rows)"
  using assms(2)
proof (induction rows)
  case Nil
  show ?case by simp
next
  case (Cons x xs)
  have "(\<Sum>k\<in>K. sum_list (map p (filter (\<lambda>r. key r = k) (x # xs))))
      = (\<Sum>k\<in>K. (if k = key x then p x else 0) + sum_list (map p (filter (\<lambda>r. key r = k) xs)))"
    by (rule sum.cong) auto
  also have "\<dots> = (\<Sum>k\<in>K. if k = key x then p x else 0)
      + (\<Sum>k\<in>K. sum_list (map p (filter (\<lambda>r. key r = k) xs)))"
    by (simp add: sum.distrib)
  also have "(\<Sum>k\<in>K. if k = key x then p x else 0) = p x"
    using assms(1) Cons.prems by (simp add: sum.delta)
  finally show ?case using Cons by simp
qed

lemma sum_groups:
  fixes p :: "'r \<Rightarrow> 'a::comm_monoid_add"
  shows "sum_list (map (\<lambda>kg. sum_list (map p (snd kg))) (group_by key rows)) = sum_list (map p rows)"
proof -
  have "sum_list (map (\<lambda>kg. sum_list (map p (snd kg))) (group_by key rows))
      = sum_list (map (\<lambda>k. sum_list (map p (filter (\<lambda>r. key r = k) rows))) (remdups (map key rows)))"
    by (simp add: group_by_def comp_def)
  also have "\<dots> = (\<Sum>k\<in>set (map key rows). sum_list (map p (filter (\<lambda>r. key r = k) rows)))"
    by (simp add: sum_list_distinct_conv_sum_set)
  also have "\<dots> = sum_list (map p rows)"
    by (rule sum_over_keys) auto
  finally show ?thesis .
qed

lemma length_as_sum: "sum_list (map (\<lambda>_. Suc 0) xs) = length xs"
  by (induction xs) auto

lemma length_groups:
  "sum_list (map (\<lambda>kg. length (snd kg)) (group_by key rows)) = length rows"
  using sum_groups [of "\<lambda>_. Suc 0" key rows] by (simp add: length_as_sum)

lemma set_group_by:
  "set (group_by key rows) = (\<lambda>k. (k, filter (\<lambda>r. key r = k) rows)) ` key ` set rows"
  by (simp add: group_by_def image_image)

lemma group_keys: "map fst (group_by key rows) = remdups (map key rows)"
  by (simp add: group_by_def comp_def)

lemma join_Nil [simp]: "join [] ys on = []"
  by (simp add: join_def)

lemma inverted_base_df:
  assumes "e < s"
  shows "base_df d rs s e = []"
proof -
  have "filter (\<lambda>ord. s \<le> O_ORDERDATE ord \<and> O_ORDERDATE ord \<le> e) (ORDERS d) = []"
    using assms by (auto simp: filter_empty_conv)
  then show ?thesis by (simp add: base_df_def)
qed

lemma base_df_regions:
  "row \<in> set (base_df d rs s e) \<Longrightarrow> R_NAME (the_region row) \<in> set rs"
  by (simp add: base_df_def)


subsection \<open>The cache of a session\<close>

lemma cache_sound_fresh: "cache_sound (fresh d)"
  by (simp add: cache_sound_def fresh_def)

lemma cache_soundD:
  "cache_sound w \<Longrightarrow> cache w (s, e) = Some b \<Longrightarrow>
     \<exists>rs. rs \<noteq> [] \<and> snd (load_filtered_data_body (db w) rs s e) = Inr b"
  unfolding cache_sound_def by blast

lemma db_load_filtered_data: "db (snd (load_filtered_data w rs s e)) = db w"
  by (simp add: load_filtered_data_def body_eq split: option.split)

lemma cache_sound_load_filtered_data:
  assumes "cache_sound w" "rs \<noteq> []"
  shows "cache_sound (snd (load_filtered_data w rs s e))"
proof (cases "cache w (cache_key rs s e)")
  case (Some b)
  then show ?thesis using assms(1) by (simp add: load_filtered_data_def)
next
  case None
  show ?thesis
    unfolding cache_sound_def
  proof (intro allI impI)
    fix s' e' b
    assume hit: "cache (snd (load_filtered_data w rs s e)) (s', e') = Some b"
    show "\<exists>rs'. rs' \<noteq> [] \<and>
        snd (load_filtered_data_body (db (snd (load_filtered_data w rs s e))) rs' s' e') = Inr b"
    proof (cases "(s', e') = (s, e)")
      case True
      with hit None have "snd (load_filtered_data_body (db w) rs s e) = Inr b"
        by (simp add: load_filtered_data_def body_eq cache_key_def)
      with True assms(2) show ?thesis by (auto simp: db_load_filtered_data)
    next
      case False
      with hit None have "cache w (s', e') = Some b"
        by (auto simp: load_filtered_data_def body_eq cache_key_def split: if_splits)
      with assms(1) show ?thesis by (simp add: cache_soundD db_load_filtered_data)
    qed
  qed
qed

lemma script_calls_pipeline:
  assumes "length dr = 2 \<and> rs \<noteq> []"
  shows "snd (script w rs dr) = snd (load_filtered_data w rs (dr ! 0) (dr ! 1))"
  using assms by (simp add: script_def split: prod.split sum.split)

lemma script_keeps:
  assumes "cache_sound w"
  shows "cache_sound (snd (script w rs dr)) \<and> db (snd (script w rs dr)) = db w"
proof (cases "length dr = 2 \<and> rs \<noteq> []")
  case True
  then have "snd (script w rs dr) = snd (load_filtered_data w rs (dr ! 0) (dr ! 1))"
    by (rule script_calls_pipeline)
  with True assms show ?thesis
    by (simp add: cache_sound_load_filtered_data db_load_filtered_data)
next
  case False
  with assms show ?thesis by (auto simp: script_def)
qed

lemma reruns_keeps:
  "cache_sound w \<Longrightarrow> cache_sound (reruns w hist) \<and> db (reruns w hist) = db w"
proof (induction hist arbitrary: w)
  case Nil
  then show ?case by simp
next
  case (Cons a hist)
  from script_keeps [OF Cons.prems, of "fst a" "snd a"]
  have "cache_sound (snd (script w (fst a) (snd a)))"
    and "db (snd (script w (fst a) (snd a))) = db w" by simp_all
  with Cons.IH [of "snd (script w (fst a) (snd a))"] show ?case by simp
qed

lemma session_keeps:
  "cache_sound (reruns (fresh d) hist) \<and> db (reruns (fresh d) hist) = d"
  using reruns_keeps [OF cache_sound_fresh, of d hist] by (simp add: fresh_def)

lemma call_returns:
  assumes "cache_sound w" "rs \<noteq> []"
  shows "\<exists>b rs'. fst (load_filtered_data w rs s e) = Inr b \<and> rs' \<noteq> []
            \<and> (cache w (cache_key rs s e) = None \<longrightarrow> rs' = rs)
            \<and> snd (load_filtered_data_body (db w) rs' s e) = Inr b"
proof (cases "cache w (cache_key rs s e)")
  case None
  then show ?thesis using assms(2)
    by (simp add: load_filtered_data_def body_eq)
next
  case (Some b)
  then have "cache w (s, e) = Some b" by (simp add: cache_key_def)
  with assms(1) obtain rs' where "rs' \<noteq> []"
      "snd (load_filtered_data_body (db w) rs' s e) = Inr b"
    using cache_soundD by blast
  with Some show ?thesis by (auto simp: load_filtered_data_def)
qed

lemma session_call:
  assumes "rs \<noteq> []"
  shows "\<exists>b rs'. fst (load_filtered_data (reruns (fresh d) hist) rs s e) = Inr b \<and> rs' \<noteq> []
            \<and> (cache (reruns (fresh d) hist) (cache_key rs s e) = None \<longrightarrow> rs' = rs)
            \<and> snd (load_filtered_data_body d rs' s e) = Inr b"
  using call_returns [OF _ assms, of "reruns (fresh d) hist" s e] session_keeps [of d hist]
  by simp

subsection \<open>Totals against the per-region table\<close>

lemma region_revenue_orders:
  "sum_list (map rr_ORDERS (region_revenue_df base)) = length base"
  using length_groups [of "\<lambda>row. R_NAME (the_region row)" base]
  by (simp add: region_revenue_df_def comp_def case_prod_unfold)

text \<open>In the decimals of the warehouse, before any conversion, the sums of the groups add
  up to the sum over the base relation.\<close>

lemma region_revenue_revenue:
  "sum_list (map rr_REVENUE (region_revenue_df base)) = sum_list (map price base)"
  using sum_groups [of price "\<lambda>row. R_NAME (the_region row)" base]
  by (simp add: region_revenue_df_def comp_def case_prod_unfold)


text \<open>
  C1. For every valid filter selection (a non-empty region list, start date not after the
  end date), at any moment of a session, the call returns a bundle whose \<open>total_orders\<close>
  is the sum of the ORDERS column of the \<open>region_revenue\<close> table of the same bundle.
\<close>

theorem total_orders_is_sum_of_region_orders:
  assumes "valid_selection rs s e"
  shows "\<exists>b. fst (load_filtered_data (reruns (fresh d) hist) rs s e) = Inr b
           \<and> total_orders b = Some (sum_list (map rr_ORDERS (region_revenue b)))"
proof -
  from assms have "rs \<noteq> []" by (simp add: valid_selection_def)
  from session_call [OF this, of d hist s e] obtain b rs'
    where ret: "fst (load_filtered_data (reruns (fresh d) hist) rs s e) = Inr b"
      and body: "snd (load_filtered_data_body d rs' s e) = Inr b" by blast
  from body have "total_orders b = Some (sum_list (map rr_ORDERS (region_revenue b)))"
    by (auto simp: body_eq region_revenue_orders)
  with ret show ?thesis by blast
qed

theorem total_orders_is_sum_of_region_orders_witness:
  "valid_selection [''ASIA'', ''EUROPE''] (1995, 1, 1) (1995, 12, 31)
   \<and> (\<exists>b. fst (load_filtered_data (reruns (fresh sample_db) [([''EUROPE''], [(1995, 1, 1), (1995, 12, 31)])])
                 [''ASIA'', ''EUROPE''] (1995, 1, 1) (1995, 12, 31)) = Inr b
          \<and> total_orders b = Some (sum_list (map rr_ORDERS (region_revenue b))))"
  using total_orders_is_sum_of_region_orders
    [of "[''ASIA'', ''EUROPE'']" "(1995, 1, 1)" "(1995, 12, 31)" sample_db
        "[([''EUROPE''], [(1995, 1, 1), (1995, 12, 31)])]"]
  by (simp add: valid_selection_def)




subsection \<open>Ordered tables\<close>



lemma monthly_revenue_ascending:
  "sorted (map mr_YEAR_MONTH (monthly_revenue_df base))"
  by (simp add: monthly_revenue_df_def order_by_def)




text \<open>
  C5. For every valid filter selection, the call returns a bundle whose \<open>monthly_revenue\<close>
  rows are in ascending order of YEAR\_MONTH: the column never decreases from one row to
  the next.
\<close>

theorem monthly_revenue_ordered_by_month:
  assumes "valid_selection rs s e"
  shows "\<exists>b. fst (load_filtered_data (reruns (fresh d) hist) rs s e) = Inr b
           \<and> sorted (map mr_YEAR_MONTH (monthly_revenue b))"
proof -
  from assms have "rs \<noteq> []" by (simp add: valid_selection_def)
  from session_call [OF this, of d hist s e] obtain b rs'
    where ret: "fst (load_filtered_data (reruns (fresh d) hist) rs s e) = Inr b"
      and body: "snd (load_filtered_data_body d rs' s e) = Inr b" by blast
  from body have "monthly_revenue b = monthly_revenue_df (base_df d rs' s e)"
    by (auto simp: body_eq)
  with ret show ?thesis
    using monthly_revenue_ascending by auto
qed

theorem monthly_revenue_ordered_by_month_witness:
  "valid_selection [''EUROPE'', ''ASIA''] (1995, 1, 1) (1996, 12, 31)
   \<and> (\<exists>b. fst (load_filtered_data (reruns (fresh sample_db) []) [''EUROPE'', ''ASIA'']
                 (1995, 1, 1) (1996, 12, 31)) = Inr b
          \<and> sorted (map mr_YEAR_MONTH (monthly_revenue b)))"
  using monthly_revenue_ordered_by_month
    [of "[''EUROPE'', ''ASIA'']" "(1995, 1, 1)" "(1996, 12, 31)" sample_db "[]"]
  by (simp add: valid_selection_def)

subsection \<open>The priority table\<close>

lemma order_by_column:
  "mset (map f (order_by key rows)) = mset (map f rows)"
  by (simp add: order_by_def)

lemma priority_analysis_labels:
  "mset (map pa_O_ORDERPRIORITY (priority_analysis_df base))
     = mset (remdups (map (\<lambda>row. O_ORDERPRIORITY (the_order row)) base))"
proof -
  let ?mk = "\<lambda>(k, g). \<lparr>pa_O_ORDERPRIORITY = k, pa_ORDERS = length g,
                       pa_REVENUE = sum_list (map price (g :: base_row list))\<rparr>"
  let ?gs = "group_by (\<lambda>row. O_ORDERPRIORITY (the_order row)) base"
  have "map pa_O_ORDERPRIORITY (map ?mk ?gs) = map fst ?gs"
    by (simp add: case_prod_unfold comp_def)
  then have "mset (map pa_O_ORDERPRIORITY (map ?mk ?gs)) = mset (remdups (map (\<lambda>row. O_ORDERPRIORITY (the_order row)) base))"
    by (simp only: group_keys)
  then show ?thesis
    unfolding priority_analysis_df_def by (simp only: order_by_column)
qed

lemma priority_analysis_sorted:
  "sorted (map pa_O_ORDERPRIORITY (priority_analysis_df base))"
  by (simp add: priority_analysis_df_def order_by_def)

lemma priority_analysis_distinct:
  "distinct (map pa_O_ORDERPRIORITY (priority_analysis_df base))"
  using mset_eq_imp_distinct_iff [OF priority_analysis_labels [of base]] by simp

lemma priority_analysis_label_set:
  "set (map pa_O_ORDERPRIORITY (priority_analysis_df base))
     = (\<lambda>row. O_ORDERPRIORITY (the_order row)) ` set base"
  using mset_eq_setD [OF priority_analysis_labels [of base]] by simp

text \<open>The order of the labels is the order of strings, character by character: a label
  ``10-...'' would come before ``2-HIGH''.\<close>

lemma label_order_is_lexical:
  "order_by id [''2-HIGH'', ''10-LOWEST'', ''1-URGENT''] = [''1-URGENT'', ''10-LOWEST'', ''2-HIGH'']"
  by code_simp

lemma priority_analysis_rows:
  assumes "row \<in> set (priority_analysis_df base)"
  shows "pa_ORDERS row =
           length (filter (\<lambda>r. O_ORDERPRIORITY (the_order r) = pa_O_ORDERPRIORITY row) base)
         \<and> pa_REVENUE row =
           sum_list (map price
             (filter (\<lambda>r. O_ORDERPRIORITY (the_order r) = pa_O_ORDERPRIORITY row) base))"
  using assms by (auto simp: priority_analysis_df_def order_by_def set_group_by)

text \<open>When the call runs the queries (its key is not stored), the table is the grouping
  of the base relation of the selection given: one row per label, each with the number of
  orders and the sum of the prices of the rows of its label, in ascending order of the
  label.\<close>

lemma computed_priority_analysis:
  assumes "cache w (cache_key rs s e) = None"
  shows "\<exists>b. fst (load_filtered_data w rs s e) = Inr b
           \<and> sorted (map pa_O_ORDERPRIORITY (priority_analysis b))
           \<and> distinct (map pa_O_ORDERPRIORITY (priority_analysis b))
           \<and> set (map pa_O_ORDERPRIORITY (priority_analysis b))
               = (\<lambda>r. O_ORDERPRIORITY (the_order r)) ` set (base_df (db w) rs s e)
           \<and> (\<forall>row \<in> set (priority_analysis b).
                 pa_ORDERS row =
                   length (filter (\<lambda>r. O_ORDERPRIORITY (the_order r) = pa_O_ORDERPRIORITY row)
                     (base_df (db w) rs s e))
                 \<and> pa_REVENUE row =
                   sum_list (map price
                     (filter (\<lambda>r. O_ORDERPRIORITY (the_order r) = pa_O_ORDERPRIORITY row)
                       (base_df (db w) rs s e))))"
proof -
  let ?t = "priority_analysis_df (base_df (db w) rs s e)"
  from assms obtain b where ret: "fst (load_filtered_data w rs s e) = Inr b"
    and t: "priority_analysis b = ?t"
    by (simp add: load_filtered_data_def body_eq)
  have rows: "\<forall>row \<in> set (priority_analysis b).
      pa_ORDERS row =
        length (filter (\<lambda>r. O_ORDERPRIORITY (the_order r) = pa_O_ORDERPRIORITY row)
          (base_df (db w) rs s e))
      \<and> pa_REVENUE row =
        sum_list (map price
          (filter (\<lambda>r. O_ORDERPRIORITY (the_order r) = pa_O_ORDERPRIORITY row)
            (base_df (db w) rs s e)))"
    unfolding t by (intro ballI, rule priority_analysis_rows)
  have labels: "sorted (map pa_O_ORDERPRIORITY (priority_analysis b))"
    "distinct (map pa_O_ORDERPRIORITY (priority_analysis b))"
    "set (map pa_O_ORDERPRIORITY (priority_analysis b))
          = (\<lambda>r. O_ORDERPRIORITY (the_order r)) ` set (base_df (db w) rs s e)"
    unfolding t
    by (rule priority_analysis_sorted, rule priority_analysis_distinct,
        rule priority_analysis_label_set)
  from ret labels rows show ?thesis
    by (intro exI [of _ b] conjI)
qed

text \<open>Whatever the call returns, in any session, is in ascending order of the label.\<close>

lemma priority_analysis_ordered_in_session:
  assumes "rs \<noteq> []"
  shows "\<exists>b. fst (load_filtered_data (reruns (fresh d) hist) rs s e) = Inr b
           \<and> sorted (map pa_O_ORDERPRIORITY (priority_analysis b))
           \<and> distinct (map pa_O_ORDERPRIORITY (priority_analysis b))"
proof -
  from session_call [OF assms, of d hist s e] obtain b rs'
    where ret: "fst (load_filtered_data (reruns (fresh d) hist) rs s e) = Inr b"
      and body: "snd (load_filtered_data_body d rs' s e) = Inr b"
    by (elim exE conjE) (rule that)
  from body have "priority_analysis b = priority_analysis_df (base_df d rs' s e)"
    by (auto simp: body_eq)
  with ret show ?thesis
    using priority_analysis_sorted priority_analysis_distinct by auto
qed

text \<open>
  C8 does not hold of the program. The claim: for every valid filter selection, the
  \<open>priority_analysis\<close> table that the call returns groups the rows of the selection by
  order-priority label, with the number of orders and the sum of the revenue of each
  group, in ascending order of the label as a string. The order holds; the groups are
  those of the selection only when the call runs the queries. The session below selects
  EUROPE for 1995, then adds ASIA: the key of the second call, made of the dates only, is
  stored, and the call returns the table of the EUROPE orders, without the label
  1-URGENT of the ASIA order that the selection now holds.
\<close>

theorem added_region_missing_from_priority_table:
  "\<exists>b. fst (load_filtered_data
            (reruns (fresh sample_db) [([''EUROPE''], [(1995, 1, 1), (1995, 12, 31)])])
            [''ASIA'', ''EUROPE''] (1995, 1, 1) (1995, 12, 31)) = Inr b
       \<and> valid_selection [''ASIA'', ''EUROPE''] (1995, 1, 1) (1995, 12, 31)
       \<and> map pa_O_ORDERPRIORITY (priority_analysis b) = [''2-HIGH'', ''5-LOW'']
       \<and> map (\<lambda>r. O_ORDERPRIORITY (the_order r))
            (base_df sample_db [''ASIA'', ''EUROPE''] (1995, 1, 1) (1995, 12, 31))
           = [''1-URGENT'', ''5-LOW'', ''2-HIGH'']"
proof -
  have "case fst (load_filtered_data
            (reruns (fresh sample_db) [([''EUROPE''], [(1995, 1, 1), (1995, 12, 31)])])
            [''ASIA'', ''EUROPE''] (1995, 1, 1) (1995, 12, 31)) of
          Inl err \<Rightarrow> False
        | Inr b \<Rightarrow> map pa_O_ORDERPRIORITY (priority_analysis b) = [''2-HIGH'', ''5-LOW'']"
    by code_simp
  moreover have "valid_selection [''ASIA'', ''EUROPE''] (1995, 1, 1) (1995, 12, 31)"
    by (simp add: valid_selection_def)
  moreover have "map (\<lambda>r. O_ORDERPRIORITY (the_order r))
            (base_df sample_db [''ASIA'', ''EUROPE''] (1995, 1, 1) (1995, 12, 31))
           = [''1-URGENT'', ''5-LOW'', ''2-HIGH'']"
    by code_simp
  ultimately show ?thesis by (auto split: sum.splits)
qed

subsection \<open>An inverted date range\<close>

lemma group_by_Nil [simp]: "group_by key [] = []"
  by (simp add: group_by_def)

lemma tables_of_no_row [simp]:
  "monthly_revenue_df [] = []" "region_revenue_df [] = []" "segment_analysis_df [] = []"
  "priority_analysis_df [] = []" "nation_revenue_df [] = []"
  by (simp_all add: monthly_revenue_df_def region_revenue_df_def segment_analysis_df_def
      priority_analysis_df_def nation_revenue_df_def order_by_def limit_def with_column_def)

lemma inverted_body:
  assumes "e < s"
  shows "snd (load_filtered_data_body d rs s e) =
           Inr \<lparr>total_revenue = None, total_orders = Some 0, avg_order_value = None,
                monthly_revenue = [], region_revenue = [], segment_analysis = [],
                priority_analysis = [], nation_revenue = []\<rparr>"
  by (simp add: body_eq inverted_base_df [OF assms] sql_sum_def sql_avg_def)

text \<open>
  C6, as amended. For every selection with a non-empty region list and an end date
  strictly before the start date, the call raises no error: the base relation is empty,
  the five tables have no row, \<open>total_revenue\<close> and \<open>avg_order_value\<close> are NULL, and
  \<open>total_orders\<close> is the number 0.
\<close>

theorem inverted_range_gives_empty_bundle:
  assumes "rs \<noteq> []" and "e < s"
  shows "base_df d rs s e = []
         \<and> fst (load_filtered_data (reruns (fresh d) hist) rs s e) =
             Inr \<lparr>total_revenue = None, total_orders = Some 0, avg_order_value = None,
                  monthly_revenue = [], region_revenue = [], segment_analysis = [],
                  priority_analysis = [], nation_revenue = []\<rparr>"
proof -
  from session_call [OF assms(1), of d hist s e] obtain b rs'
    where ret: "fst (load_filtered_data (reruns (fresh d) hist) rs s e) = Inr b"
      and body: "snd (load_filtered_data_body d rs' s e) = Inr b"
    by (elim exE conjE) (rule that)
  from body have "b = \<lparr>total_revenue = None, total_orders = Some 0, avg_order_value = None,
                  monthly_revenue = [], region_revenue = [], segment_analysis = [],
                  priority_analysis = [], nation_revenue = []\<rparr>"
    by (simp add: inverted_body [OF assms(2)])
  with ret inverted_base_df [OF assms(2)] show ?thesis by simp
qed

theorem inverted_range_gives_empty_bundle_witness:
  "[''ASIA'', ''EUROPE''] \<noteq> [] \<and> ((1995, 1, 1) :: date) < (1995, 12, 31)
   \<and> base_df sample_db [''ASIA'', ''EUROPE''] (1995, 12, 31) (1995, 1, 1) = []
   \<and> fst (load_filtered_data
        (reruns (fresh sample_db) [([''EUROPE''], [(1995, 12, 31), (1995, 1, 1)])])
        [''ASIA'', ''EUROPE''] (1995, 12, 31) (1995, 1, 1)) =
       Inr \<lparr>total_revenue = None, total_orders = Some 0, avg_order_value = None,
            monthly_revenue = [], region_revenue = [], segment_analysis = [],
            priority_analysis = [], nation_revenue = []\<rparr>"
proof -
  have "[''ASIA'', ''EUROPE''] \<noteq> []" and "((1995, 1, 1) :: date) < (1995, 12, 31)"
    by simp_all
  from inverted_range_gives_empty_bundle [OF this, of sample_db] this
  show ?thesis by blast
qed

text \<open>The claim as stated makes every scalar NULL; the order count of an empty base
  relation is 0, a number.\<close>

theorem inverted_range_all_null_counterexample:
  "[''ASIA''] \<noteq> [] \<and> ((1995, 1, 1) :: date) < (1995, 12, 31)
   \<and> \<not> (\<exists>b. fst (load_filtered_data (fresh sample_db) [''ASIA''] (1995, 12, 31) (1995, 1, 1)) = Inr b
         \<and> base_df sample_db [''ASIA''] (1995, 12, 31) (1995, 1, 1) = []
         \<and> total_revenue b = None \<and> total_orders b = None \<and> avg_order_value b = None
         \<and> monthly_revenue b = [] \<and> region_revenue b = [] \<and> segment_analysis b = []
         \<and> priority_analysis b = [] \<and> nation_revenue b = [])"
proof -
  have "case fst (load_filtered_data (fresh sample_db) [''ASIA''] (1995, 12, 31) (1995, 1, 1)) of
          Inl err \<Rightarrow> False
        | Inr b \<Rightarrow> total_orders b = Some 0"
    by code_simp
  then show ?thesis by (auto split: sum.splits)
qed

subsection \<open>The region filter and the cache\<close>

lemma region_revenue_names:
  "set (map rr_R_NAME (region_revenue_df base)) = (\<lambda>row. R_NAME (the_region row)) ` set base"
  by (auto simp: region_revenue_df_def set_group_by image_image)

lemma nation_revenue_names:
  "set (map nr_R_NAME (nation_revenue_df base)) \<subseteq> (\<lambda>row. R_NAME (the_region row)) ` set base"
proof -
  have "set (nation_revenue_df base)
      \<subseteq> set (map (\<lambda>(k, g). \<lparr>nr_N_NAME = fst k, nr_R_NAME = snd k,
                          nr_REVENUE = sum_list (map price g)\<rparr>)
             (group_by (\<lambda>row. (N_NAME (the_nation row), R_NAME (the_region row))) base))"
    unfolding nation_revenue_df_def limit_def order_by_def
    using set_take_subset [of 10] by fastforce
  also have "\<dots> = (\<lambda>row. \<lparr>nr_N_NAME = N_NAME (the_nation row), nr_R_NAME = R_NAME (the_region row),
        nr_REVENUE = sum_list (map price
          (filter (\<lambda>r. (N_NAME (the_nation r), R_NAME (the_region r))
                       = (N_NAME (the_nation row), R_NAME (the_region row))) base))\<rparr>) ` set base"
    by (simp add: set_group_by image_image)
  finally have "nr_R_NAME ` set (nation_revenue_df base) \<subseteq> nr_R_NAME ` \<dots>"
    by (rule image_mono)
  then show ?thesis by (simp add: image_image)
qed

text \<open>When the call runs the queries (its key is not stored), no row leaves the region
  filter.\<close>

lemma computed_bundle_within_selection:
  assumes "cache w (cache_key rs s e) = None"
  shows "\<exists>b. fst (load_filtered_data w rs s e) = Inr b
           \<and> set (map rr_R_NAME (region_revenue b)) \<subseteq> set rs
           \<and> set (map nr_R_NAME (nation_revenue b)) \<subseteq> set rs"
proof -
  have "(\<lambda>row. R_NAME (the_region row)) ` set (base_df (db w) rs s e) \<subseteq> set rs"
    using base_df_regions by blast
  with region_revenue_names [of "base_df (db w) rs s e"]
    nation_revenue_names [of "base_df (db w) rs s e"]
  have "set (map rr_R_NAME (region_revenue_df (base_df (db w) rs s e))) \<subseteq> set rs"
    and "set (map nr_R_NAME (nation_revenue_df (base_df (db w) rs s e))) \<subseteq> set rs"
    by blast+
  with assms show ?thesis
    by (simp add: load_filtered_data_def body_eq)
qed

text \<open>
  C10 does not hold of the program. The claim: for every valid filter selection, every
  R\_NAME in a row of the \<open>region_revenue\<close> or \<open>nation_revenue\<close> table that the call returns
  is one of the selected regions. The session below selects ASIA and EUROPE for 1995,
  then deselects EUROPE: the key of the second call, made of the dates only, is stored,
  and the call returns the bundle of the first selection, with its EUROPE rows.
\<close>

theorem deselected_region_stays_in_tables:
  "\<exists>b. fst (load_filtered_data
            (reruns (fresh sample_db) [([''ASIA'', ''EUROPE''], [(1995, 1, 1), (1995, 12, 31)])])
            [''ASIA''] (1995, 1, 1) (1995, 12, 31)) = Inr b
       \<and> valid_selection [''ASIA''] (1995, 1, 1) (1995, 12, 31)
       \<and> ''EUROPE'' \<in> set (map rr_R_NAME (region_revenue b))
       \<and> ''EUROPE'' \<in> set (map nr_R_NAME (nation_revenue b))
       \<and> ''EUROPE'' \<notin> set [''ASIA'']"
proof -
  have "case fst (load_filtered_data
            (reruns (fresh sample_db) [([''ASIA'', ''EUROPE''], [(1995, 1, 1), (1995, 12, 31)])])
            [''ASIA''] (1995, 1, 1) (1995, 12, 31)) of
          Inl err \<Rightarrow> False
        | Inr b \<Rightarrow> map rr_R_NAME (region_revenue b) = [''ASIA'', ''EUROPE'']
            \<and> map nr_R_NAME (nation_revenue b) = [''EUROPE'', ''EUROPE'', ''ASIA'']"
    by code_simp
  moreover have "valid_selection [''ASIA''] (1995, 1, 1) (1995, 12, 31)"
    by (simp add: valid_selection_def)
  ultimately show ?thesis by (auto split: sum.splits)
qed

subsection \<open>Repeated and permuted calls\<close>


lemma second_call_is_a_hit:
  "cache (snd (load_filtered_data w rs s e)) (cache_key rs' s e)
     = Some (projr (fst (load_filtered_data w rs s e)))"
  by (simp add: load_filtered_data_def cache_key_def body_eq split: option.split)

lemma first_call_returns:
  "fst (load_filtered_data w rs s e) = Inr (projr (fst (load_filtered_data w rs s e)))"
  by (simp add: load_filtered_data_def body_eq split: option.split)

lemma repeated_call:
  "load_filtered_data (snd (load_filtered_data w rs s e)) rs' s e
     = (fst (load_filtered_data w rs s e), snd (load_filtered_data w rs s e))"
proof -
  let ?w1 = "snd (load_filtered_data w rs s e)"
  have "load_filtered_data ?w1 rs' s e = (Inr (projr (fst (load_filtered_data w rs s e))), ?w1)"
    unfolding load_filtered_data_def [of ?w1] by (simp add: second_call_is_a_hit)
  then show ?thesis using first_call_returns [of w rs s e] by simp
qed

text \<open>
  C3. For every filter key, calling the pipeline twice with the same regions and dates
  returns equal results, and a call changes no state but the cache (and the record of
  the read queries it sent): the database is left as it was, and the second call sends
  no query and leaves even the cache as it was.
\<close>

theorem same_key_same_bundle:
  "fst (load_filtered_data (snd (load_filtered_data w rs s e)) rs s e)
     = fst (load_filtered_data w rs s e)
   \<and> db (snd (load_filtered_data w rs s e)) = db w
   \<and> snd (load_filtered_data (snd (load_filtered_data w rs s e)) rs s e)
     = snd (load_filtered_data w rs s e)"
  by (simp add: repeated_call db_load_filtered_data)

theorem same_key_same_bundle_witness:
  "fst (load_filtered_data
          (snd (load_filtered_data (fresh sample_db) [''ASIA''] (1995, 1, 1) (1995, 12, 31)))
          [''ASIA''] (1995, 1, 1) (1995, 12, 31))
     = fst (load_filtered_data (fresh sample_db) [''ASIA''] (1995, 1, 1) (1995, 12, 31))
   \<and> db (snd (load_filtered_data (fresh sample_db) [''ASIA''] (1995, 1, 1) (1995, 12, 31)))
     = db (fresh sample_db)
   \<and> snd (load_filtered_data
          (snd (load_filtered_data (fresh sample_db) [''ASIA''] (1995, 1, 1) (1995, 12, 31)))
          [''ASIA''] (1995, 1, 1) (1995, 12, 31))
     = snd (load_filtered_data (fresh sample_db) [''ASIA''] (1995, 1, 1) (1995, 12, 31))"
  by (rule same_key_same_bundle)




subsection \<open>The guard of the page\<close>

lemma format_metric_cases:
  "format_metric v = (if v = None then Inl TypeError else Inr (the v))"
  by (cases v) (simp_all add: format_metric_def)

lemma script_page:
  assumes "length dr = 2 \<and> rs \<noteq> []"
    and "fst (load_filtered_data w rs (dr ! 0) (dr ! 1)) = Inr data"
  shows "fst (script w rs dr) =
           (if total_revenue data = None \<or> total_orders data = None
               \<or> avg_order_value data = None
            then Failed TypeError else Dashboard data)"
proof -
  let ?call = "load_filtered_data w rs (dr ! 0) (dr ! 1)"
  from assms(2) have call: "?call = (Inr data, snd ?call)"
    by (simp add: prod_eq_iff)
  have "script w rs dr =
      (case ?call of
         (Inl err, w') \<Rightarrow> (Failed err, w')
       | (Inr data, w') \<Rightarrow>
           (case format_metric (total_revenue data) of
              Inl err \<Rightarrow> (Failed err, w')
            | Inr _ \<Rightarrow>
                (case format_metric (total_orders data) of
                   Inl err \<Rightarrow> (Failed err, w')
                 | Inr _ \<Rightarrow>
                     (case format_metric (avg_order_value data) of
                        Inl err \<Rightarrow> (Failed err, w')
                      | Inr _ \<Rightarrow> (Dashboard data, w')))))"
    using assms(1) by (simp add: script_def)
  then show ?thesis
    by (subst (asm) call) (simp add: format_metric_cases)
qed

text \<open>
  C7. For every state of the widgets in which the region list is empty or the date range
  does not hold both its ends, a run of the script shows the prompt and nothing else:
  the state is left as it was, so no query of the pipeline was sent and the cache was not
  touched. This is the only branch: in every other state of the widgets the run never
  shows the prompt; it calls the pipeline, which returns a bundle, and goes on to the
  tiles, where it draws the dashboard from that bundle or, when a scalar of the bundle is
  \<^verbatim>\<open>None\<close>, ends with the TypeError of the format.
\<close>

theorem incomplete_selection_shows_prompt:
  "(selected_regions = [] \<or> length date_range \<noteq> 2
      \<longrightarrow> script w selected_regions date_range = (Prompt, w))
   \<and> (selected_regions \<noteq> [] \<and> length date_range = 2
      \<longrightarrow> fst (script w selected_regions date_range) \<noteq> Prompt
        \<and> snd (script w selected_regions date_range)
            = snd (load_filtered_data w selected_regions (date_range ! 0) (date_range ! 1))
        \<and> (\<exists>data. fst (load_filtered_data w selected_regions (date_range ! 0) (date_range ! 1))
                     = Inr data
                 \<and> fst (script w selected_regions date_range) =
                     (if total_revenue data = None \<or> total_orders data = None
                         \<or> avg_order_value data = None
                      then Failed TypeError else Dashboard data)))"
proof (intro conjI impI)
  assume "selected_regions = [] \<or> length date_range \<noteq> 2"
  then show "script w selected_regions date_range = (Prompt, w)"
    by (auto simp: script_def)
next
  assume "selected_regions \<noteq> [] \<and> length date_range = 2"
  then have complete: "length date_range = 2 \<and> selected_regions \<noteq> []" by simp
  let ?call = "load_filtered_data w selected_regions (date_range ! 0) (date_range ! 1)"
  from first_call_returns obtain data where data: "fst ?call = Inr data" by blast
  note page = script_page [OF complete data]
  show "fst (script w selected_regions date_range) \<noteq> Prompt"
    by (simp add: page)
  show "snd (script w selected_regions date_range) = snd ?call"
    using complete by (rule script_calls_pipeline)
  from data page show "\<exists>data. fst ?call = Inr data
      \<and> fst (script w selected_regions date_range) =
          (if total_revenue data = None \<or> total_orders data = None
              \<or> avg_order_value data = None
           then Failed TypeError else Dashboard data)"
    by blast
qed

theorem incomplete_selection_shows_prompt_witness:
  "([] = ([] :: string list) \<or> length [(1995, 1, 1), (1995, 12, 31) :: date] \<noteq> 2)
   \<and> script (fresh sample_db) [] [(1995, 1, 1), (1995, 12, 31)] = (Prompt, fresh sample_db)
   \<and> ([''ASIA''] = ([] :: string list) \<or> length [(1995, 1, 1) :: date] \<noteq> 2)
   \<and> script (fresh sample_db) [''ASIA''] [(1995, 1, 1)] = (Prompt, fresh sample_db)
   \<and> [''ASIA''] \<noteq> [] \<and> length [(1995, 1, 1), (1995, 12, 31) :: date] = 2
   \<and> fst (script (fresh sample_db) [''ASIA''] [(1995, 1, 1), (1995, 12, 31)]) \<noteq> Prompt
   \<and> snd (script (fresh sample_db) [''ASIA''] [(1995, 1, 1), (1995, 12, 31)])
       = snd (load_filtered_data (fresh sample_db) [''ASIA'']
               ([(1995, 1, 1), (1995, 12, 31)] ! 0) ([(1995, 1, 1), (1995, 12, 31)] ! 1))"
  using incomplete_selection_shows_prompt [of "[]" "[(1995, 1, 1), (1995, 12, 31)]" "fresh sample_db"]
    incomplete_selection_shows_prompt [of "[''ASIA'']" "[(1995, 1, 1)]" "fresh sample_db"]
    incomplete_selection_shows_prompt [of "[''ASIA'']" "[(1995, 1, 1), (1995, 12, 31)]" "fresh sample_db"]
  by simp

text \<open>Both ends of a complete selection, on the small warehouse: the orders of 1995 give
  the dashboard; February 1995 has no order of ASIA, \<open>total_revenue\<close> is \<^verbatim>\<open>None\<close> and the
  first tile raises.\<close>

lemma complete_selection_pages:
  "(case fst (script (fresh sample_db) [''ASIA''] [(1995, 1, 1), (1995, 12, 31)]) of
      Dashboard data \<Rightarrow> total_revenue data = Some 15000 | _ \<Rightarrow> False)
   \<and> fst (script (fresh sample_db) [''ASIA''] [(1995, 2, 1), (1995, 2, 28)]) = Failed TypeError"
  by code_simp

end
